theory Spec2Isabelle
  imports Complex_Main
begin

section \<open>Values, errors and the HTTP layer\<close>

text \<open>
  The Python values the client handles are the ones \<^verbatim>\<open>requests\<close> decodes from a JSON
  body: \<^verbatim>\<open>None\<close>, booleans, integers, floats, strings, lists and dicts. A dict is the
  list of its items (the keys are distinct, as in a Python dict). A float is kept as its
  literal: no operation of the client computes with one.
\<close>

datatype json_value =
    JNull
  | JBool bool
  | JInt int
  | JFloat string
  | JStr string
  | JArr "json_value list"
  | JObj "(string \<times> json_value) list"

text \<open>
  The exceptions a run can end with. \<open>RequestException\<close> stands for whatever the HTTP
  layer raises (connection refused, TLS failure, timeout); none of them is caught
  anywhere in the client.
\<close>

datatype error =
    KeyError string
  | TypeError
  | ValueError
  | AttributeError
  | JSONDecodeError
  | RequestException string

text \<open>\<^verbatim>\<open>obj[key]\<close> with a string key, on a decoded JSON value.\<close>

fun py_getitem :: "json_value \<Rightarrow> string \<Rightarrow> error + json_value" where
  "py_getitem (JObj kvs) k = (case map_of kvs k of None \<Rightarrow> Inl (KeyError k) | Some v \<Rightarrow> Inr v)"
| "py_getitem _ k = Inl TypeError"

text \<open>\<^verbatim>\<open>d.update({k: v})\<close> for one key: an existing key keeps its place.\<close>

fun dict_set :: "string \<Rightarrow> 'v \<Rightarrow> (string \<times> 'v) list \<Rightarrow> (string \<times> 'v) list" where
  "dict_set k v [] = [(k, v)]"
| "dict_set k v (p # ps) = (if fst p = k then (k, v) # ps else p # dict_set k v ps)"

datatype http_method = GET | POST | PATCH

text \<open>
  What the client hands to \<^verbatim>\<open>session.get\<close>, \<^verbatim>\<open>session.post\<close> or \<^verbatim>\<open>session.patch\<close>: the
  method, the URL and the keyword arguments \<^verbatim>\<open>params\<close>, \<^verbatim>\<open>data\<close> and \<^verbatim>\<open>json\<close>.
\<close>

record request =
  req_method :: http_method
  req_url :: string
  req_params :: "(string \<times> json_value) list"
  req_data :: "json_value option"
  req_json :: "json_value option"

text \<open>
  Of a \<^verbatim>\<open>requests.Response\<close> the client reads \<^verbatim>\<open>status_code\<close> and \<^verbatim>\<open>json()\<close>;
  \<open>body_json\<close> is \<open>None\<close> when the body is not JSON, where \<^verbatim>\<open>json()\<close> raises.
\<close>

record response =
  status_code :: int
  body_json :: "json_value option"

datatype level = INFO | WARNING

text \<open>
  The world outside the client: the clock, the controller behind the HTTP layer (its
  answer to a request, given the requests sent before), the exchanges made so far, oldest
  first, and the records handed to \<^verbatim>\<open>logging\<close>. \<open>clock w n\<close> is the float that the \<open>n\<close>-th
  evaluation of \<^verbatim>\<open>datetime.utcnow().timestamp() * 1000\<close> gives, the time in milliseconds;
  a float is a rational number, and the product is taken from the clock as it is, since
  floating-point multiplication is not modelled.
\<close>

record world =
  clock :: "nat \<Rightarrow> rat"
  ticks :: nat
  server :: "request list \<Rightarrow> request \<Rightarrow> error + response"
  exchanges :: "(request \<times> (error + response)) list"
  logging :: "(level \<times> string) list"

definition transport :: "request \<Rightarrow> world \<Rightarrow> (error + response) \<times> world" where
  "transport r w =
     (let a = server w (map fst (exchanges w)) r
      in (a, w\<lparr>exchanges := exchanges w @ [(r, a)]\<rparr>))"

definition logging_info :: "string \<Rightarrow> world \<Rightarrow> world" where
  "logging_info msg w = w\<lparr>logging := logging w @ [(INFO, msg)]\<rparr>"

definition logging_warning :: "string \<Rightarrow> world \<Rightarrow> world" where
  "logging_warning msg w = w\<lparr>logging := logging w @ [(WARNING, msg)]\<rparr>"

section \<open>The client\<close>

text \<open>
  The attributes \<^verbatim>\<open>__init__\<close> takes from the YAML file when it exists, and from its
  arguments and the prompt otherwise; reading them is not modelled.
\<close>

record settings =
  baseurl :: string
  site :: string
  verify :: bool
  login_username :: string
  login_password :: string

text \<open>The \<^verbatim>\<open>OmadaAPI\<close> object; \<open>JNull\<close> is the token \<^verbatim>\<open>None\<close>.\<close>

record session = settings +
  token :: json_value
  base_api_path :: string

definition OmadaAPI :: "settings \<Rightarrow> session" where
  "OmadaAPI cfg =
     \<lparr>baseurl = baseurl cfg, site = site cfg, verify = verify cfg,
      login_username = login_username cfg, login_password = login_password cfg,
      token = JNull, base_api_path = ''/api/v2''\<rparr>"

text \<open>\<^verbatim>\<open>int(x)\<close> on a float truncates towards zero.\<close>

definition py_int :: "rat \<Rightarrow> int" where
  "py_int x = (if 0 \<le> x then \<lfloor>x\<rfloor> else \<lceil>x\<rceil>)"

definition get_timestamp :: "world \<Rightarrow> int \<times> world" where
  "get_timestamp w = (py_int (clock w (ticks w)), w\<lparr>ticks := Suc (ticks w)\<rparr>)"

definition path_to_url :: "session \<Rightarrow> string \<Rightarrow> string" where
  "path_to_url self path = baseurl self @ base_api_path self @ path"

text \<open>
  The keyword arguments of \<^verbatim>\<open>makeApiCall\<close>. The \<^verbatim>\<open>debug\<close> flags of the call and of the
  object only guard \<^verbatim>\<open>print\<close> statements; console output is not modelled.
\<close>

record call =
  url :: string
  mode :: string
  endpoint_params :: "(string \<times> json_value) list option"
  data :: "json_value option"
  json :: "json_value option"
  include_token :: bool
  bare_url :: bool
  serialize_result :: bool

text \<open>The defaults of the keyword arguments; every caller passes \<^verbatim>\<open>url\<close>.\<close>

definition defaults :: "string \<Rightarrow> call" where
  "defaults u =
     \<lparr>url = u, mode = ''GET'', endpoint_params = None, data = None, json = None,
      include_token = True, bare_url = False, serialize_result = True\<rparr>"

text \<open>What \<^verbatim>\<open>makeApiCall\<close> returns: the decoded body, or the response itself.\<close>

datatype api_result = Parsed json_value | Raw response

definition makeApiCall :: "session \<Rightarrow> call \<Rightarrow> world \<Rightarrow> (error + api_result) \<times> world" where
  "makeApiCall self c w =
     (let params0 = (case endpoint_params c of None \<Rightarrow> [] | Some p \<Rightarrow> p);
          url1 = (if \<not> bare_url c then path_to_url self (url c) else url c);
          (params1, w1) =
            (if include_token c
             then (let (ts, w') = get_timestamp w
                   in (dict_set ''_'' (JInt ts) (dict_set ''token'' (token self) params0), w'))
             else (params0, w))
      in if mode c = ''GET'' \<or> mode c = ''POST'' \<or> mode c = ''PATCH''
         then
           (let r = (if mode c = ''GET''
                     then \<lparr>req_method = GET, req_url = url1, req_params = params1,
                           req_data = None, req_json = None\<rparr>
                     else \<lparr>req_method = (if mode c = ''POST'' then POST else PATCH),
                           req_url = url1, req_params = params1,
                           req_data = data c, req_json = json c\<rparr>);
                (a, w2) = transport r w1
            in case a of
                 Inl e \<Rightarrow> (Inl e, w2)
               | Inr d \<Rightarrow>
                   if serialize_result c
                   then (case body_json d of
                           None \<Rightarrow> (Inl JSONDecodeError, w2)
                         | Some j \<Rightarrow> (Inr (Parsed j), w2))
                   else (Inr (Raw d), w2))
         else (Inl ValueError, w1))"

text \<open>\<^verbatim>\<open>result[key]\<close> and \<^verbatim>\<open>result.status_code\<close> on what \<^verbatim>\<open>makeApiCall\<close> returned.\<close>

fun subscript :: "api_result \<Rightarrow> string \<Rightarrow> error + json_value" where
  "subscript (Parsed j) k = py_getitem j k"
| "subscript (Raw d) k = Inl TypeError"

fun get_status_code :: "api_result \<Rightarrow> error + int" where
  "get_status_code (Raw d) = Inr (status_code d)"
| "get_status_code (Parsed j) = Inl AttributeError"

text \<open>Sequencing: an exception ends the enclosing function at once.\<close>

definition on_value :: "error + 'a \<Rightarrow> ('a \<Rightarrow> error + 'b) \<Rightarrow> error + 'b" where
  "on_value x f = (case x of Inl e \<Rightarrow> Inl e | Inr v \<Rightarrow> f v)"

definition on_return ::
  "(error + 'a) \<times> world \<Rightarrow> ('a \<Rightarrow> world \<Rightarrow> (error + 'b) \<times> world) \<Rightarrow> (error + 'b) \<times> world" where
  "on_return m f = (case m of (Inl e, w) \<Rightarrow> (Inl e, w) | (Inr x, w) \<Rightarrow> f x w)"

text \<open>The decimal text of an integer, as an f-string prints it.\<close>

definition digit_char :: "nat \<Rightarrow> char" where
  "digit_char d = ''0123456789'' ! d"

fun show_nat :: "nat \<Rightarrow> string" where
  "show_nat n = (if n < 10 then [digit_char n] else show_nat (n div 10) @ [digit_char (n mod 10)])"

declare show_nat.simps [simp del]

definition show_int :: "int \<Rightarrow> string" where
  "show_int i = (if i < 0 then CHR ''-'' # show_nat (nat (- i)) else show_nat (nat i))"

definition login :: "session \<Rightarrow> world \<Rightarrow> (error + json_value) \<times> session \<times> world" where
  "login self w =
     (let json_dict = JObj [(''username'', JStr (login_username self)),
                            (''password'', JStr (login_password self))]
      in case makeApiCall self
                ((defaults ''/login'')\<lparr>json := Some json_dict, mode := ''POST'',
                                         include_token := False\<rparr>) w of
           (Inl e, w1) \<Rightarrow> (Inl e, self, w1)
         | (Inr result, w1) \<Rightarrow>
             (case on_value (subscript result ''result'') (\<lambda>r. py_getitem r ''token'') of
                Inl e \<Rightarrow> (Inl e, self, w1)
              | Inr t \<Rightarrow> (Inr t, self\<lparr>token := t\<rparr>, w1)))"

definition logout :: "session \<Rightarrow> world \<Rightarrow> (error + unit) \<times> world" where
  "logout self w =
     on_return
       (makeApiCall self
          ((defaults ''/logout'')\<lparr>mode := ''POST'', include_token := False,
                                    serialize_result := False\<rparr>) w)
       (\<lambda>result w1.
          case get_status_code result of
            Inl e \<Rightarrow> (Inl e, w1)
          | Inr code \<Rightarrow>
              if code = 200 then (Inr (), logging_info ''logged out'' w1)
              else (Inr (),
                    logging_warning (''logout failed with status code '' @ show_int code) w1))"

definition is_logged :: "session \<Rightarrow> world \<Rightarrow> (error + bool) \<times> world" where
  "is_logged self w =
     on_return
       (makeApiCall self
          ((defaults ''/loginStatus'')\<lparr>mode := ''GET'', serialize_result := False\<rparr>) w)
       (\<lambda>result w1.
          case get_status_code result of
            Inl e \<Rightarrow> (Inl e, w1)
          | Inr code \<Rightarrow> if code = 200 then (Inr True, w1) else (Inr False, w1))"

subsection \<open>Tables\<close>

text \<open>
  pandas is a library, not code of this repository, so its constructors are parameters
  of the model: \<open>DataFrame pd x\<close> and \<open>Series pd x\<close> are what \<^verbatim>\<open>pd.DataFrame(x)\<close> and
  \<^verbatim>\<open>pd.Series(x)\<close> give, or the exception they raise. A series is its labels and its
  cells; a frame is its column labels and its rows. The client and the batch script only
  ever put a cell into an f-string, so a cell is the text that formatting gives for it.
\<close>

record series =
  labels :: "string list"
  cell :: "string \<Rightarrow> string"

record dataframe =
  columns :: "string list"
  rows :: "(string \<Rightarrow> string) list"

record pandas =
  DataFrame :: "json_value \<Rightarrow> error + dataframe"
  Series :: "json_value \<Rightarrow> error + series"




subsection \<open>The operations on the controller\<close>

definition get_admins :: "pandas \<Rightarrow> session \<Rightarrow> world \<Rightarrow> (error + dataframe) \<times> world" where
  "get_admins pd self w =
     on_return
       (makeApiCall self ((defaults ''/users'')\<lparr>mode := ''GET'', serialize_result := True\<rparr>) w)
       (\<lambda>result w1.
          (on_value (on_value (subscript result ''result'') (\<lambda>r. py_getitem r ''data''))
             (DataFrame pd), w1))"

definition get_sites :: "pandas \<Rightarrow> session \<Rightarrow> world \<Rightarrow> (error + dataframe) \<times> world" where
  "get_sites pd self w =
     on_return
       (makeApiCall self ((defaults ''/sites'')\<lparr>mode := ''GET'', serialize_result := True\<rparr>) w)
       (\<lambda>result w1.
          (on_value (on_value (subscript result ''result'') (\<lambda>r. py_getitem r ''data''))
             (DataFrame pd), w1))"

definition get_scenarios :: "session \<Rightarrow> world \<Rightarrow> (error + json_value) \<times> world" where
  "get_scenarios self w =
     on_return
       (makeApiCall self ((defaults ''/scenarios'')\<lparr>mode := ''GET'', serialize_result := True\<rparr>) w)
       (\<lambda>result w1. (subscript result ''result'', w1))"

text \<open>
  From here on \<open>site_key = None\<close> is a call that leaves the argument out.
  \<^verbatim>\<open>get_site_settings\<close> declares \<^verbatim>\<open>site_key\<close> without a default: leaving it out is a
  \<^verbatim>\<open>TypeError\<close> of the call itself, before the body runs. The other operations declare
  \<^verbatim>\<open>site_key: str = None\<close> and replace \<^verbatim>\<open>None\<close> by the site of the object.
\<close>

definition get_site_settings ::
  "pandas \<Rightarrow> session \<Rightarrow> string option \<Rightarrow> world \<Rightarrow> (error + dataframe) \<times> world" where
  "get_site_settings pd self site_key w =
     (case site_key of
        None \<Rightarrow> (Inl TypeError, w)
      | Some k \<Rightarrow>
          on_return
            (makeApiCall self
               ((defaults (''/sites/'' @ k @ ''/setting''))\<lparr>mode := ''GET'', serialize_result := True\<rparr>) w)
            (\<lambda>result w1. (on_value (subscript result ''result'') (DataFrame pd), w1)))"

definition get_devices ::
  "pandas \<Rightarrow> session \<Rightarrow> string option \<Rightarrow> world \<Rightarrow> (error + dataframe) \<times> world" where
  "get_devices pd self site_key w =
     (let k = (case site_key of None \<Rightarrow> site self | Some k \<Rightarrow> k)
      in on_return
           (makeApiCall self
              ((defaults (''/sites/'' @ k @ ''/devices''))\<lparr>mode := ''GET'', serialize_result := True\<rparr>) w)
           (\<lambda>result w1. (on_value (subscript result ''result'') (DataFrame pd), w1)))"

definition get_eap_data ::
  "pandas \<Rightarrow> session \<Rightarrow> string \<Rightarrow> string option \<Rightarrow> world \<Rightarrow> (error + series) \<times> world" where
  "get_eap_data pd self eap_mac site_key w =
     (let k = (case site_key of None \<Rightarrow> site self | Some k \<Rightarrow> k)
      in on_return
           (makeApiCall self
              ((defaults (''/sites/'' @ k @ ''/eaps/'' @ eap_mac))\<lparr>mode := ''GET'', serialize_result := True\<rparr>) w)
           (\<lambda>result w1. (on_value (subscript result ''result'') (Series pd), w1)))"

definition set_eap_2g_radio ::
  "session \<Rightarrow> string \<Rightarrow> bool \<Rightarrow> string option \<Rightarrow> world \<Rightarrow> (error + api_result) \<times> world" where
  "set_eap_2g_radio self eap_mac radio_status site_key w =
     (let k = (case site_key of None \<Rightarrow> site self | Some k \<Rightarrow> k)
      in makeApiCall self
           ((defaults (''/sites/'' @ k @ ''/eaps/'' @ eap_mac))
              \<lparr>mode := ''PATCH'',
               json := Some (JObj [(''radioSetting2g'', JObj [(''radioEnable'', JBool radio_status)])]),
               serialize_result := True\<rparr>) w)"

definition set_eap_led_status ::
  "session \<Rightarrow> string \<Rightarrow> int \<Rightarrow> string option \<Rightarrow> world \<Rightarrow> (error + api_result) \<times> world" where
  "set_eap_led_status self eap_mac led_status site_key w =
     (let k = (case site_key of None \<Rightarrow> site self | Some k \<Rightarrow> k)
      in makeApiCall self
           ((defaults (''/sites/'' @ k @ ''/eaps/'' @ eap_mac))
              \<lparr>mode := ''PATCH'',
               json := Some (JObj [(''ledSetting'', JInt led_status)]),
               serialize_result := True\<rparr>) w)"

definition set_eap_5g_radio ::
  "session \<Rightarrow> string \<Rightarrow> bool \<Rightarrow> string option \<Rightarrow> world \<Rightarrow> (error + api_result) \<times> world" where
  "set_eap_5g_radio self eap_mac radio_status site_key w =
     (let k = (case site_key of None \<Rightarrow> site self | Some k \<Rightarrow> k)
      in makeApiCall self
           ((defaults (''/sites/'' @ k @ ''/eaps/'' @ eap_mac))
              \<lparr>mode := ''PATCH'',
               json := Some (JObj [(''radioSetting5g'', JObj [(''radioEnable'', JBool radio_status)])]),
               serialize_result := True\<rparr>) w)"

section \<open>The batch script\<close>




section \<open>Sequences of calls\<close>

text \<open>
  One call of a public method of the client, and a script that makes such calls one after
  the other on the same object: an exception ends the script.
\<close>

datatype operation =
    Login
  | Logout
  | IsLogged
  | GetAdmins
  | GetSites
  | GetScenarios
  | GetSiteSettings "string option"
  | GetDevices "string option"
  | GetEapData string "string option"
  | SetEap2gRadio string bool "string option"
  | SetEapLedStatus string int "string option"
  | SetEap5gRadio string bool "string option"

definition raised :: "error + 'a \<Rightarrow> error option" where
  "raised x = (case x of Inl e \<Rightarrow> Some e | Inr v \<Rightarrow> None)"

definition finish :: "session \<Rightarrow> (error + 'a) \<times> world \<Rightarrow> error option \<times> session \<times> world" where
  "finish self m = (raised (fst m), self, snd m)"

fun perform :: "pandas \<Rightarrow> operation \<Rightarrow> session \<Rightarrow> world \<Rightarrow> error option \<times> session \<times> world" where
  "perform pd Login self w = (case login self w of (x, self1, w1) \<Rightarrow> (raised x, self1, w1))"
| "perform pd Logout self w = finish self (logout self w)"
| "perform pd IsLogged self w = finish self (is_logged self w)"
| "perform pd GetAdmins self w = finish self (get_admins pd self w)"
| "perform pd GetSites self w = finish self (get_sites pd self w)"
| "perform pd GetScenarios self w = finish self (get_scenarios self w)"
| "perform pd (GetSiteSettings k) self w = finish self (get_site_settings pd self k w)"
| "perform pd (GetDevices k) self w = finish self (get_devices pd self k w)"
| "perform pd (GetEapData m k) self w = finish self (get_eap_data pd self m k w)"
| "perform pd (SetEap2gRadio m b k) self w = finish self (set_eap_2g_radio self m b k w)"
| "perform pd (SetEapLedStatus m i k) self w = finish self (set_eap_led_status self m i k w)"
| "perform pd (SetEap5gRadio m b k) self w = finish self (set_eap_5g_radio self m b k w)"


section \<open>Notions the results are stated with\<close>

text \<open>The nested field \<^verbatim>\<open>result.token\<close> of a decoded body, when the body has one.\<close>

definition nested_token :: "json_value \<Rightarrow> json_value option" where
  "nested_token j =
     (case j of
        JObj kvs \<Rightarrow>
          (case map_of kvs ''result'' of
             Some (JObj kvs2) \<Rightarrow> map_of kvs2 ''token''
           | _ \<Rightarrow> None)
      | _ \<Rightarrow> None)"




text \<open>
  What \<^verbatim>\<open>makeApiCall\<close> does for a supported mode, in three parts: the request it hands to
  the HTTP layer, the world after the exchange, and what it makes of the answer.
\<close>

definition sent_request :: "session \<Rightarrow> call \<Rightarrow> world \<Rightarrow> request" where
  "sent_request self c w =
     \<lparr>req_method = (if mode c = ''GET'' then GET else if mode c = ''POST'' then POST else PATCH),
      req_url = (if bare_url c then url c else path_to_url self (url c)),
      req_params =
        (let params0 = (case endpoint_params c of None \<Rightarrow> [] | Some p \<Rightarrow> p)
         in if include_token c
            then dict_set ''_'' (JInt (fst (get_timestamp w))) (dict_set ''token'' (token self) params0)
            else params0),
      req_data = (if mode c = ''GET'' then None else data c),
      req_json = (if mode c = ''GET'' then None else json c)\<rparr>"

definition answer :: "session \<Rightarrow> call \<Rightarrow> world \<Rightarrow> error + response" where
  "answer self c w = server w (map fst (exchanges w)) (sent_request self c w)"

definition after :: "session \<Rightarrow> call \<Rightarrow> world \<Rightarrow> world" where
  "after self c w =
     w\<lparr>ticks := (if include_token c then Suc (ticks w) else ticks w),
       exchanges := exchanges w @ [(sent_request self c w, answer self c w)]\<rparr>"

definition decode :: "call \<Rightarrow> error + response \<Rightarrow> error + api_result" where
  "decode c a =
     (case a of
        Inl e \<Rightarrow> Inl e
      | Inr d \<Rightarrow>
          if serialize_result c
          then (case body_json d of None \<Rightarrow> Inl JSONDecodeError | Some j \<Rightarrow> Inr (Parsed j))
          else Inr (Raw d))"

section \<open>A concrete installation\<close>

text \<open>
  The settings of the README, a clock that advances a quarter of a second between two
  readings, an object that holds a token, and controllers to run the client against.
\<close>

definition example_settings :: settings where
  "example_settings =
     \<lparr>baseurl = ''https://omadacontroller.local:8043'', site = ''Default'', verify = True,
      login_username = ''admin'', login_password = ''secret''\<rparr>"

definition example_api :: session where
  "example_api = OmadaAPI example_settings"

definition logged_in_api :: session where
  "logged_in_api = example_api\<lparr>token := JStr ''0ld70k''\<rparr>"

definition example_clock :: "nat \<Rightarrow> rat" where
  "example_clock n = 1700000000000 + 250 * of_nat n"

definition example_world :: "(request list \<Rightarrow> request \<Rightarrow> error + response) \<Rightarrow> world" where
  "example_world srv = \<lparr>clock = example_clock, ticks = 0, server = srv, exchanges = [], logging = []\<rparr>"

text \<open>A controller that gives the same answer to every request.\<close>

definition answering :: "response \<Rightarrow> request list \<Rightarrow> request \<Rightarrow> error + response" where
  "answering d h r = Inr d"

definition unauthorized :: response where
  "unauthorized = \<lparr>status_code = 401, body_json = None\<rparr>"

definition login_ok :: response where
  "login_ok =
     \<lparr>status_code = 200,
      body_json = Some (JObj [(''errorCode'', JInt 0), (''msg'', JStr ''Log in successfully.''),
                              (''result'', JObj [(''roleType'', JInt 0),
                                                 (''token'', JStr ''4f1a9c'')])])\<rparr>"

definition login_refused :: response where
  "login_refused =
     \<lparr>status_code = 200,
      body_json = Some (JObj [(''errorCode'', JInt (- 30109)),
                              (''msg'', JStr ''Invalid username or password.'')])\<rparr>"

definition bad_gateway :: response where
  "bad_gateway = \<lparr>status_code = 502, body_json = None\<rparr>"

definition led_ok :: response where
  "led_ok =
     \<lparr>status_code = 200,
      body_json = Some (JObj [(''errorCode'', JInt 0), (''msg'', JStr ''Success.''),
                              (''result'', JObj [(''ledSetting'', JInt 0)])])\<rparr>"

definition plain_ok :: response where
  "plain_ok =
     \<lparr>status_code = 200,
      body_json = Some (JObj [(''errorCode'', JInt 0), (''msg'', JStr ''Success.'')])\<rparr>"







section \<open>Auxiliary notions\<close>

text \<open>
  The keyword arguments with which \<^verbatim>\<open>login\<close>, \<^verbatim>\<open>logout\<close> and \<^verbatim>\<open>is_logged\<close> call
  \<^verbatim>\<open>makeApiCall\<close>.
\<close>

definition login_call :: "session \<Rightarrow> call" where
  "login_call self =
     (defaults ''/login'')
       \<lparr>json := Some (JObj [(''username'', JStr (login_username self)),
                             (''password'', JStr (login_password self))]),
        mode := ''POST'', include_token := False\<rparr>"

definition logout_call :: call where
  "logout_call =
     (defaults ''/logout'')\<lparr>mode := ''POST'', include_token := False, serialize_result := False\<rparr>"

definition status_call :: call where
  "status_call = (defaults ''/loginStatus'')\<lparr>mode := ''GET'', serialize_result := False\<rparr>"




section \<open>What a call of \<^verbatim>\<open>makeApiCall\<close> does\<close>

lemma makeApiCall_eq:
  "mode c = ''GET'' \<or> mode c = ''POST'' \<or> mode c = ''PATCH'' \<Longrightarrow>
   makeApiCall self c w = (decode c (answer self c w), after self c w)"
  unfolding makeApiCall_def sent_request_def answer_def after_def decode_def transport_def
    get_timestamp_def Let_def
  by (cases "include_token c"; cases "mode c = ''GET''"; cases "mode c = ''POST''";
      simp split: sum.splits option.splits)

lemma makeApiCall_bad_mode:
  "\<not> (mode c = ''GET'' \<or> mode c = ''POST'' \<or> mode c = ''PATCH'') \<Longrightarrow>
   makeApiCall self c w = (Inl ValueError, if include_token c then w\<lparr>ticks := Suc (ticks w)\<rparr> else w)"
  unfolding makeApiCall_def get_timestamp_def Let_def
  by (simp split: sum.splits option.splits)

lemma after_simps:
  "exchanges (after self c w) = exchanges w @ [(sent_request self c w, answer self c w)]"
  "ticks (after self c w) = (if include_token c then Suc (ticks w) else ticks w)"
  "clock (after self c w) = clock w"
  "server (after self c w) = server w"
  "logging (after self c w) = logging w"
  by (simp_all add: after_def)

lemma makeApiCall_exchange:
  assumes "makeApiCall self c w = (res, w')"
    and "exchanges w' = exchanges w @ [(r, a)]"
  shows "res = decode c a \<and> r = sent_request self c w"
proof (cases "mode c = ''GET'' \<or> mode c = ''POST'' \<or> mode c = ''PATCH''")
  case True
  from makeApiCall_eq [OF True, of self w] assms(1)
  have "res = decode c (answer self c w)" and "w' = after self c w" by simp_all
  with assms(2) show ?thesis by (simp add: after_simps)
next
  case False
  from makeApiCall_bad_mode [OF False, of self w] assms(1)
  have "exchanges w' = exchanges w" by (cases "include_token c") auto
  with assms(2) show ?thesis by simp
qed

lemma map_of_dict_set: "map_of (dict_set k v ps) k' = (if k' = k then Some v else map_of ps k')"
  by (induction ps) auto

lemma defaults_simps:
  "url (defaults u) = u" "mode (defaults u) = ''GET''" "endpoint_params (defaults u) = None"
  "data (defaults u) = None" "json (defaults u) = None" "include_token (defaults u)"
  "\<not> bare_url (defaults u)" "serialize_result (defaults u)"
  by (simp_all add: defaults_def)

lemma plain_params:
  "endpoint_params c = None \<Longrightarrow>
   req_params (sent_request self c w) =
     (if include_token c then [(''token'', token self), (''_'', JInt (py_int (clock w (ticks w))))]
      else [])"
  by (simp add: sent_request_def get_timestamp_def)

text \<open>Evaluating the client on the concrete installation.\<close>

lemmas example_defs =
  example_world_def example_api_def logged_in_api_def example_settings_def example_clock_def
  OmadaAPI_def answering_def sent_request_def answer_def after_def decode_def path_to_url_def
  get_timestamp_def py_int_def defaults_def on_return_def on_value_def

section \<open>Login status\<close>

text \<open>
  C7. Whatever response the status check comes back with, \<^verbatim>\<open>is_logged\<close> returns normally,
  and it returns \<open>True\<close> exactly when the status code of the response is 200.
\<close>

theorem is_logged_iff_200:
  assumes "answer self status_call w = Inr d"
  shows "is_logged self w = (Inr (status_code d = 200), after self status_call w)"
proof -
  have m: "makeApiCall self status_call w
             = (decode status_call (answer self status_call w), after self status_call w)"
    by (rule makeApiCall_eq) (simp add: status_call_def)
  have d: "decode status_call (Inr d) = Inr (Raw d)"
    by (simp add: decode_def status_call_def)
  show ?thesis
    unfolding is_logged_def status_call_def [symmetric] m assms d
    by (simp add: on_return_def)
qed

theorem is_logged_iff_200_witness:
  "answer logged_in_api status_call (example_world (answering plain_ok)) = Inr plain_ok
   \<and> fst (is_logged logged_in_api (example_world (answering plain_ok))) = Inr True
   \<and> answer logged_in_api status_call (example_world (answering unauthorized)) = Inr unauthorized
   \<and> fst (is_logged logged_in_api (example_world (answering unauthorized))) = Inr False
   \<and> exchanges (snd (is_logged logged_in_api (example_world (answering unauthorized)))) =
       [(\<lparr>req_method = GET, req_url = ''https://omadacontroller.local:8043/api/v2/loginStatus'',
          req_params = [(''token'', JStr ''0ld70k''), (''_'', JInt 1700000000000)],
          req_data = None, req_json = None\<rparr>, Inr unauthorized)]"
proof -
  have a1: "answer logged_in_api status_call (example_world (answering plain_ok)) = Inr plain_ok"
    by (simp add: answer_def example_world_def answering_def)
  have a2: "answer logged_in_api status_call (example_world (answering unauthorized)) = Inr unauthorized"
    by (simp add: answer_def example_world_def answering_def)
  have e: "exchanges (after logged_in_api status_call (example_world (answering unauthorized))) =
       [(\<lparr>req_method = GET, req_url = ''https://omadacontroller.local:8043/api/v2/loginStatus'',
          req_params = [(''token'', JStr ''0ld70k''), (''_'', JInt 1700000000000)],
          req_data = None, req_json = None\<rparr>, Inr unauthorized)]"
    by (simp add: status_call_def example_defs)
  from is_logged_iff_200 [OF a1] is_logged_iff_200 [OF a2] a1 a2 e show ?thesis
    by (simp add: plain_ok_def unauthorized_def)
qed

section \<open>Login\<close>

lemma login_eq:
  "login self w =
     (case on_value (on_value (decode (login_call self) (answer self (login_call self) w))
                       (\<lambda>result. subscript result ''result''))
             (\<lambda>r. py_getitem r ''token'') of
        Inl e \<Rightarrow> (Inl e, self, after self (login_call self) w)
      | Inr t \<Rightarrow> (Inr t, self\<lparr>token := t\<rparr>, after self (login_call self) w))"
proof -
  have m: "makeApiCall self (login_call self) w =
      (decode (login_call self) (answer self (login_call self) w), after self (login_call self) w)"
    by (rule makeApiCall_eq) (simp add: login_call_def)
  show ?thesis
    unfolding login_def Let_def login_call_def [symmetric] m
    by (simp add: on_value_def split: sum.splits)
qed


lemma nested_token_Some:
  "nested_token j = Some t \<Longrightarrow>
   on_value (subscript (Parsed j) ''result'') (\<lambda>r. py_getitem r ''token'') = Inr t"
  by (auto simp: nested_token_def on_value_def split: json_value.splits option.splits)


text \<open>Which lookup fails in a body without the nested field, and how.\<close>

lemma failing_lookup:
  "nested_token j = None \<Longrightarrow>
   on_value (subscript (Parsed j) ''result'') (\<lambda>r. py_getitem r ''token'') =
     Inl (case j of
            JObj kvs \<Rightarrow>
              (case map_of kvs ''result'' of
                 None \<Rightarrow> KeyError ''result''
               | Some r \<Rightarrow> (case r of JObj kvs2 \<Rightarrow> KeyError ''token'' | _ \<Rightarrow> TypeError))
          | _ \<Rightarrow> TypeError)"
  by (cases j) (auto simp: nested_token_def on_value_def split: json_value.splits option.splits)

lemma login_call_simps:
  "mode (login_call self) = ''POST''" "serialize_result (login_call self)"
  "\<not> include_token (login_call self)" "endpoint_params (login_call self) = None"
  "url (login_call self) = ''/login''" "\<not> bare_url (login_call self)"
  by (simp_all add: login_call_def defaults_def)


lemma perform_session: "x \<noteq> Login \<Longrightarrow> fst (snd (perform pd x self w)) = self"
  by (cases x) (simp_all add: finish_def)

text \<open>
  C1. When the controller answers the login request with a JSON body that has a nested
  \<^verbatim>\<open>result.token\<close>, \<^verbatim>\<open>login\<close> returns that token and stores it in the object, whatever
  token the object held before. From then on every call of \<^verbatim>\<open>makeApiCall\<close> that includes
  the token sends one request, with that token as its \<^verbatim>\<open>token\<close> parameter, and no operation
  but \<^verbatim>\<open>login\<close> changes the object.
\<close>

theorem login_returns_token:
  assumes "answer self (login_call self) w = Inr d"
    and "body_json d = Some j"
    and "nested_token j = Some t"
  shows "login self w = (Inr t, self\<lparr>token := t\<rparr>, after self (login_call self) w) \<and>
         (\<forall>c w2. include_token c \<and> (mode c = ''GET'' \<or> mode c = ''POST'' \<or> mode c = ''PATCH'') \<longrightarrow>
            (\<exists>r. exchanges (snd (makeApiCall (self\<lparr>token := t\<rparr>) c w2))
                    = exchanges w2 @ [(r, server w2 (map fst (exchanges w2)) r)] \<and>
                  map_of (req_params r) ''token'' = Some t)) \<and>
         (\<forall>pd x w2. x \<noteq> Login \<longrightarrow> fst (snd (perform pd x (self\<lparr>token := t\<rparr>) w2)) = self\<lparr>token := t\<rparr>)"
proof -
  have d: "decode (login_call self) (Inr d) = Inr (Parsed j)"
    using assms(2) by (simp add: decode_def login_call_simps)
  have l: "login self w = (Inr t, self\<lparr>token := t\<rparr>, after self (login_call self) w)"
    unfolding login_eq assms(1) d using nested_token_Some [OF assms(3)]
    by (simp add: on_value_def)
  have later: "\<exists>r. exchanges (snd (makeApiCall (self\<lparr>token := t\<rparr>) c w2))
                    = exchanges w2 @ [(r, server w2 (map fst (exchanges w2)) r)] \<and>
                  map_of (req_params r) ''token'' = Some t"
    if "include_token c" "mode c = ''GET'' \<or> mode c = ''POST'' \<or> mode c = ''PATCH''" for c w2
  proof -
    let ?r = "sent_request (self\<lparr>token := t\<rparr>) c w2"
    have "exchanges (snd (makeApiCall (self\<lparr>token := t\<rparr>) c w2))
            = exchanges w2 @ [(?r, server w2 (map fst (exchanges w2)) ?r)]"
      by (simp add: makeApiCall_eq [OF that(2)] after_simps answer_def)
    moreover have "map_of (req_params ?r) ''token'' = Some t"
      using that(1) by (simp add: sent_request_def map_of_dict_set Let_def)
    ultimately show ?thesis by blast
  qed
  from l later perform_session show ?thesis by blast
qed

theorem login_returns_token_witness:
  "answer logged_in_api (login_call logged_in_api) (example_world (answering login_ok)) = Inr login_ok
   \<and> nested_token (the (body_json login_ok)) = Some (JStr ''4f1a9c'')
   \<and> token logged_in_api = JStr ''0ld70k''
   \<and> fst (login logged_in_api (example_world (answering login_ok))) = Inr (JStr ''4f1a9c'')
   \<and> token (fst (snd (login logged_in_api (example_world (answering login_ok))))) = JStr ''4f1a9c''
   \<and> map (\<lambda>x. (req_url (fst x), req_params (fst x)))
        (exchanges (snd (makeApiCall (fst (snd (login logged_in_api (example_world (answering login_ok)))))
                           (defaults ''/sites'')
                           (snd (snd (login logged_in_api (example_world (answering login_ok))))))))
      = [(''https://omadacontroller.local:8043/api/v2/login'', []),
         (''https://omadacontroller.local:8043/api/v2/sites'',
          [(''token'', JStr ''4f1a9c''), (''_'', JInt 1700000000000)])]"
proof -
  let ?w = "example_world (answering login_ok)"
  let ?j = "JObj [(''errorCode'', JInt 0), (''msg'', JStr ''Log in successfully.''),
                  (''result'', JObj [(''roleType'', JInt 0), (''token'', JStr ''4f1a9c'')])]"
  have a: "answer logged_in_api (login_call logged_in_api) ?w = Inr login_ok"
    by (simp add: answer_def example_world_def answering_def)
  have b: "body_json login_ok = Some ?j" by (simp add: login_ok_def)
  have n: "nested_token ?j = Some (JStr ''4f1a9c'')" by (simp add: nested_token_def)
  note t = login_returns_token [OF a b n, THEN conjunct1]
  have x: "map (\<lambda>x. (req_url (fst x), req_params (fst x)))
        (exchanges (snd (makeApiCall (logged_in_api\<lparr>token := JStr ''4f1a9c''\<rparr>) (defaults ''/sites'')
                           (after logged_in_api (login_call logged_in_api) ?w))))
      = [(''https://omadacontroller.local:8043/api/v2/login'', []),
         (''https://omadacontroller.local:8043/api/v2/sites'',
          [(''token'', JStr ''4f1a9c''), (''_'', JInt 1700000000000)])]"
    by (simp add: makeApiCall_eq login_call_def example_defs)
  from t a b n x show ?thesis
    by (simp add: logged_in_api_def)
qed

text \<open>
  C4. A login answer without a nested \<^verbatim>\<open>result.token\<close> makes \<^verbatim>\<open>login\<close> fail with the
  exception of the step that fails: \<^verbatim>\<open>JSONDecodeError\<close> when the body is not JSON,
  \<^verbatim>\<open>TypeError\<close> when the body or its \<^verbatim>\<open>result\<close> is not a dict, \<^verbatim>\<open>KeyError\<close> of the key when
  the body has no \<^verbatim>\<open>result\<close> or the result no \<^verbatim>\<open>token\<close>.
\<close>

theorem login_without_token_fails_with_lookup_error:
  assumes "answer self (login_call self) w = Inr d"
    and "Option.bind (body_json d) nested_token = None"
  shows "fst (login self w) =
           Inl (case body_json d of
                  None \<Rightarrow> JSONDecodeError
                | Some j \<Rightarrow>
                    (case j of
                       JObj kvs \<Rightarrow>
                         (case map_of kvs ''result'' of
                            None \<Rightarrow> KeyError ''result''
                          | Some r \<Rightarrow> (case r of JObj kvs2 \<Rightarrow> KeyError ''token'' | _ \<Rightarrow> TypeError))
                     | _ \<Rightarrow> TypeError))"
proof (cases "body_json d")
  case None
  then have "decode (login_call self) (Inr d) = Inl JSONDecodeError"
    by (simp add: decode_def login_call_simps)
  then show ?thesis
    unfolding login_eq assms(1) using None by (simp add: on_value_def)
next
  case (Some j)
  with assms(2) have n: "nested_token j = None" by simp
  have "decode (login_call self) (Inr d) = Inr (Parsed j)"
    using Some by (simp add: decode_def login_call_simps)
  then have "login self w =
      (case on_value (subscript (Parsed j) ''result'') (\<lambda>r. py_getitem r ''token'') of
         Inl e \<Rightarrow> (Inl e, self, after self (login_call self) w)
       | Inr t \<Rightarrow> (Inr t, self\<lparr>token := t\<rparr>, after self (login_call self) w))"
    unfolding login_eq assms(1) by (simp add: on_value_def)
  then show ?thesis
    unfolding failing_lookup [OF n] using Some by simp
qed

theorem login_without_token_fails_with_lookup_error_witness:
  "fst (login logged_in_api (example_world (answering bad_gateway))) = Inl JSONDecodeError
   \<and> fst (login logged_in_api (example_world (answering
            \<lparr>status_code = 200, body_json = Some (JArr [])\<rparr>))) = Inl TypeError
   \<and> fst (login logged_in_api (example_world (answering
            \<lparr>status_code = 200, body_json = Some (JObj [(''errorCode'', JInt 0)])\<rparr>)))
       = Inl (KeyError ''result'')
   \<and> fst (login logged_in_api (example_world (answering
            \<lparr>status_code = 200, body_json = Some (JObj [(''result'', JStr ''ok'')])\<rparr>)))
       = Inl TypeError
   \<and> fst (login logged_in_api (example_world (answering
            \<lparr>status_code = 200, body_json = Some (JObj [(''result'', JObj [])])\<rparr>)))
       = Inl (KeyError ''token'')"
proof -
  have a: "answer logged_in_api (login_call logged_in_api) (example_world (answering d)) = Inr d" for d
    by (simp add: answer_def example_world_def answering_def)
  note t = login_without_token_fails_with_lookup_error [OF a]
  have "Option.bind (body_json bad_gateway) nested_token = None"
    by (simp add: bad_gateway_def)
  from t [OF this] have 1: "fst (login logged_in_api (example_world (answering bad_gateway))) = Inl JSONDecodeError"
    by (simp add: bad_gateway_def)
  have "Option.bind (body_json \<lparr>status_code = 200, body_json = Some (JArr [])\<rparr>) nested_token = None"
    by (simp add: nested_token_def)
  from t [OF this] have 2: "fst (login logged_in_api (example_world (answering
            \<lparr>status_code = 200, body_json = Some (JArr [])\<rparr>))) = Inl TypeError"
    by simp
  have "Option.bind (body_json \<lparr>status_code = 200, body_json = Some (JObj [(''errorCode'', JInt 0)])\<rparr>)
          nested_token = None"
    by (simp add: nested_token_def)
  from t [OF this] have 3: "fst (login logged_in_api (example_world (answering
            \<lparr>status_code = 200, body_json = Some (JObj [(''errorCode'', JInt 0)])\<rparr>)))
       = Inl (KeyError ''result'')"
    by simp
  have "Option.bind (body_json \<lparr>status_code = 200, body_json = Some (JObj [(''result'', JStr ''ok'')])\<rparr>)
          nested_token = None"
    by (simp add: nested_token_def)
  from t [OF this] have 4: "fst (login logged_in_api (example_world (answering
            \<lparr>status_code = 200, body_json = Some (JObj [(''result'', JStr ''ok'')])\<rparr>)))
       = Inl TypeError"
    by simp
  have "Option.bind (body_json \<lparr>status_code = 200, body_json = Some (JObj [(''result'', JObj [])])\<rparr>)
          nested_token = None"
    by (simp add: nested_token_def)
  from t [OF this] have 5: "fst (login logged_in_api (example_world (answering
            \<lparr>status_code = 200, body_json = Some (JObj [(''result'', JObj [])])\<rparr>)))
       = Inl (KeyError ''token'')"
    by simp
  from 1 2 3 4 5 show ?thesis by simp
qed

text \<open>
  The claim as stated fails: the client has no authentication error of its own, and a
  refused login ends with the \<^verbatim>\<open>KeyError\<close> of the lookup.
\<close>

theorem login_auth_error_counterexample:
  "nested_token (the (body_json login_refused)) = None
   \<and> fst (login example_api (example_world (answering login_refused))) = Inl (KeyError ''result'')"
  by (simp add: login_eq login_refused_def login_call_def nested_token_def example_defs)



section \<open>The result of a call\<close>

lemma decode_json:
  "serialize_result c \<Longrightarrow> body_json d = Some j \<Longrightarrow> decode c (Inr d) = Inr (Parsed j)"
  by (simp add: decode_def)

lemma set_eap_2g_radio_eq:
  "set_eap_2g_radio self m b k w =
   (let c = (defaults (''/sites/'' @ (case k of None \<Rightarrow> site self | Some k \<Rightarrow> k) @ ''/eaps/'' @ m))
             \<lparr>mode := ''PATCH'',
              json := Some (JObj [(''radioSetting2g'', JObj [(''radioEnable'', JBool b)])]),
              serialize_result := True\<rparr>
    in (decode c (answer self c w), after self c w))"
  by (simp add: set_eap_2g_radio_def Let_def makeApiCall_eq)

lemma set_eap_led_status_eq:
  "set_eap_led_status self m i k w =
   (let c = (defaults (''/sites/'' @ (case k of None \<Rightarrow> site self | Some k \<Rightarrow> k) @ ''/eaps/'' @ m))
             \<lparr>mode := ''PATCH'',
              json := Some (JObj [(''ledSetting'', JInt i)]),
              serialize_result := True\<rparr>
    in (decode c (answer self c w), after self c w))"
  by (simp add: set_eap_led_status_def Let_def makeApiCall_eq)

lemma set_eap_5g_radio_eq:
  "set_eap_5g_radio self m b k w =
   (let c = (defaults (''/sites/'' @ (case k of None \<Rightarrow> site self | Some k \<Rightarrow> k) @ ''/eaps/'' @ m))
             \<lparr>mode := ''PATCH'',
              json := Some (JObj [(''radioSetting5g'', JObj [(''radioEnable'', JBool b)])]),
              serialize_result := True\<rparr>
    in (decode c (answer self c w), after self c w))"
  by (simp add: set_eap_5g_radio_def Let_def makeApiCall_eq)

lemma answered_patch:
  assumes "\<And>h r. req_method r = PATCH \<Longrightarrow> server w h r = Inr d"
    and "mode c = ''PATCH''"
  shows "answer self c w = Inr d"
proof -
  have "req_method (sent_request self c w) = PATCH"
    using assms(2) by (simp add: sent_request_def)
  from assms(1) [OF this] show ?thesis by (simp add: answer_def)
qed

text \<open>
  C2. A call that asks for the result to be serialized returns the decoded body of the
  response as it is, the whole envelope; and so do \<^verbatim>\<open>set_eap_2g_radio\<close>,
  \<^verbatim>\<open>set_eap_led_status\<close> and \<^verbatim>\<open>set_eap_5g_radio\<close> of a controller that answers a PATCH with
  that response.
\<close>

theorem serialized_call_returns_whole_body:
  assumes "body_json d = Some j"
  shows "(serialize_result c \<and> (mode c = ''GET'' \<or> mode c = ''POST'' \<or> mode c = ''PATCH'') \<and>
          answer self c w = Inr d \<longrightarrow>
            fst (makeApiCall self c w) = Inr (Parsed j))
       \<and> ((\<forall>h r. req_method r = PATCH \<longrightarrow> server w h r = Inr d) \<longrightarrow>
            fst (set_eap_2g_radio self m b k w) = Inr (Parsed j) \<and>
            fst (set_eap_led_status self m i k w) = Inr (Parsed j) \<and>
            fst (set_eap_5g_radio self m b k w) = Inr (Parsed j))"
proof -
  have call: "fst (makeApiCall self c w) = Inr (Parsed j)"
    if "serialize_result c" "mode c = ''GET'' \<or> mode c = ''POST'' \<or> mode c = ''PATCH''"
      "answer self c w = Inr d" for c
    using that decode_json [OF that(1) assms] by (simp add: makeApiCall_eq)
  have setters: "fst (set_eap_2g_radio self m b k w) = Inr (Parsed j) \<and>
            fst (set_eap_led_status self m i k w) = Inr (Parsed j) \<and>
            fst (set_eap_5g_radio self m b k w) = Inr (Parsed j)"
    if p: "\<forall>h r. req_method r = PATCH \<longrightarrow> server w h r = Inr d"
  proof -
    have a: "answer self c w = Inr d" if "mode c = ''PATCH''" for c
      using answered_patch [of w d c self] p that by blast
    show ?thesis
      using assms
      by (simp add: set_eap_2g_radio_eq set_eap_led_status_eq set_eap_5g_radio_eq Let_def a
          decode_def)
  qed
  from call setters show ?thesis by blast
qed

theorem serialized_call_returns_whole_body_witness:
  "answer logged_in_api (defaults ''/scenarios'') (example_world (answering led_ok)) = Inr led_ok
   \<and> fst (makeApiCall logged_in_api (defaults ''/scenarios'') (example_world (answering led_ok)))
     = Inr (Parsed (JObj [(''errorCode'', JInt 0), (''msg'', JStr ''Success.''),
                          (''result'', JObj [(''ledSetting'', JInt 0)])]))
   \<and> fst (set_eap_2g_radio logged_in_api ''AA:BB'' False None (example_world (answering led_ok)))
     = Inr (Parsed (JObj [(''errorCode'', JInt 0), (''msg'', JStr ''Success.''),
                          (''result'', JObj [(''ledSetting'', JInt 0)])]))
   \<and> fst (set_eap_led_status logged_in_api ''AA:BB'' 0 None (example_world (answering led_ok)))
     = Inr (Parsed (JObj [(''errorCode'', JInt 0), (''msg'', JStr ''Success.''),
                          (''result'', JObj [(''ledSetting'', JInt 0)])]))
   \<and> fst (set_eap_5g_radio logged_in_api ''AA:BB'' False None (example_world (answering led_ok)))
     = Inr (Parsed (JObj [(''errorCode'', JInt 0), (''msg'', JStr ''Success.''),
                          (''result'', JObj [(''ledSetting'', JInt 0)])]))"
proof -
  let ?w = "example_world (answering led_ok)"
  let ?j = "JObj [(''errorCode'', JInt 0), (''msg'', JStr ''Success.''),
                  (''result'', JObj [(''ledSetting'', JInt 0)])]"
  have b: "body_json led_ok = Some ?j" by (simp add: led_ok_def)
  have a: "answer logged_in_api (defaults ''/scenarios'') ?w = Inr led_ok"
    by (simp add: answer_def example_world_def answering_def)
  have p: "\<forall>h r. req_method r = PATCH \<longrightarrow> server ?w h r = Inr led_ok"
    by (simp add: example_world_def answering_def)
  note t = serialized_call_returns_whole_body [OF b]
  from t [THEN conjunct1, of "defaults ''/scenarios''" logged_in_api ?w] a
  have 1: "fst (makeApiCall logged_in_api (defaults ''/scenarios'') ?w) = Inr (Parsed ?j)"
    by (simp add: defaults_simps)
  from t [THEN conjunct2, THEN mp, OF p] 1 a show ?thesis by simp
qed

text \<open>
  The claim as stated fails: what comes back is the whole envelope, with its error code
  and message, and not the value of its \<^verbatim>\<open>result\<close> field.
\<close>

theorem inner_result_only_counterexample:
  "fst (set_eap_led_status example_api ''AA:BB'' 0 None (example_world (answering led_ok)))
     = Inr (Parsed (JObj [(''errorCode'', JInt 0), (''msg'', JStr ''Success.''),
                          (''result'', JObj [(''ledSetting'', JInt 0)])]))
   \<and> fst (set_eap_led_status example_api ''AA:BB'' 0 None (example_world (answering led_ok)))
     \<noteq> Inr (Parsed (JObj [(''ledSetting'', JInt 0)]))"
  by (simp add: set_eap_led_status_def makeApiCall_eq led_ok_def example_defs)

section \<open>Logout\<close>

text \<open>
  C8. Whatever response the logout request comes back with, JSON or not, \<^verbatim>\<open>logout\<close> has
  sent the request without any query parameter, returns normally and hands one record to
  \<^verbatim>\<open>logging\<close>: an information when the status code is 200, a warning with the code
  otherwise. Nothing else of the world changes.
\<close>

theorem logout_never_raises:
  assumes "answer self logout_call w = Inr d"
  shows "logout self w =
           (Inr (),
            (after self logout_call w)
              \<lparr>logging := logging w @
                 [if status_code d = 200 then (INFO, ''logged out'')
                  else (WARNING, ''logout failed with status code '' @ show_int (status_code d))]\<rparr>)
         \<and> req_params (sent_request self logout_call w) = []"
proof -
  have m: "makeApiCall self logout_call w
             = (decode logout_call (answer self logout_call w), after self logout_call w)"
    by (rule makeApiCall_eq) (simp add: logout_call_def)
  have d: "decode logout_call (Inr d) = Inr (Raw d)"
    by (simp add: decode_def logout_call_def)
  have p: "req_params (sent_request self logout_call w) = []"
    by (simp add: plain_params logout_call_def defaults_simps)
  have "logout self w =
           (Inr (),
            (after self logout_call w)
              \<lparr>logging := logging w @
                 [if status_code d = 200 then (INFO, ''logged out'')
                  else (WARNING, ''logout failed with status code '' @ show_int (status_code d))]\<rparr>)"
    unfolding logout_def logout_call_def [symmetric] m assms d
    by (simp add: on_return_def logging_info_def logging_warning_def after_simps)
  with p show ?thesis by simp
qed

theorem logout_never_raises_witness:
  "answer logged_in_api logout_call (example_world (answering bad_gateway)) = Inr bad_gateway
   \<and> fst (logout logged_in_api (example_world (answering bad_gateway))) = Inr ()
   \<and> exchanges (snd (logout logged_in_api (example_world (answering bad_gateway)))) =
       [(\<lparr>req_method = POST, req_url = ''https://omadacontroller.local:8043/api/v2/logout'',
          req_params = [], req_data = None, req_json = None\<rparr>, Inr bad_gateway)]
   \<and> logging (snd (logout logged_in_api (example_world (answering bad_gateway))))
       = [(WARNING, ''logout failed with status code 502'')]
   \<and> fst (logout logged_in_api (example_world (answering plain_ok))) = Inr ()
   \<and> logging (snd (logout logged_in_api (example_world (answering plain_ok))))
       = [(INFO, ''logged out'')]"
proof -
  have a: "answer logged_in_api logout_call (example_world (answering d)) = Inr d" for d
    by (simp add: answer_def example_world_def answering_def)
  have s: "show_int 502 = ''502''"
    by (simp add: show_int_def show_nat.simps digit_char_def)
  have e: "exchanges (after logged_in_api logout_call (example_world (answering bad_gateway))) =
       [(\<lparr>req_method = POST, req_url = ''https://omadacontroller.local:8043/api/v2/logout'',
          req_params = [], req_data = None, req_json = None\<rparr>, Inr bad_gateway)]"
    by (simp add: logout_call_def example_defs)
  from logout_never_raises [OF a, of bad_gateway] logout_never_raises [OF a, of plain_ok] a s e
  show ?thesis
    by (simp add: bad_gateway_def plain_ok_def example_world_def)
qed

section \<open>One operation, one exchange\<close>















section \<open>Token and timestamp\<close>




section \<open>The site of a call\<close>




section \<open>Timestamps\<close>










section \<open>The batch script\<close>










end
